theory Spec2Isabelle
  imports Main "HOL-Library.Word"
begin

section \<open>Strings\<close>

text \<open>
  A JavaScript string is a sequence of 16-bit code units. \<open>js_str\<close> reads an ASCII
  literal of the source as such a sequence.
\<close>

type_synonym jsstring = "16 word list"

definition js_str :: "string \<Rightarrow> jsstring" where
  "js_str s = map (\<lambda>c. of_nat (of_char c)) s"

text \<open>
  The code units that \<^verbatim>\<open>String.prototype.trim\<close> strips: the WhiteSpace and
  LineTerminator productions of ECMAScript (TAB, LF, VT, FF, CR, SP, NBSP, the Unicode
  space separators, LS, PS and the byte order mark).
\<close>

definition isWhiteSpace :: "16 word \<Rightarrow> bool" where
  "isWhiteSpace c \<longleftrightarrow>
     c \<in> set [0x9, 0xA, 0xB, 0xC, 0xD, 0x20, 0xA0, 0x1680,
               0x2000, 0x2001, 0x2002, 0x2003, 0x2004, 0x2005, 0x2006, 0x2007,
               0x2008, 0x2009, 0x200A, 0x2028, 0x2029, 0x202F, 0x205F, 0x3000, 0xFEFF]"

definition js_trim :: "jsstring \<Rightarrow> jsstring" where
  "js_trim s = rev (dropWhile isWhiteSpace (rev (dropWhile isWhiteSpace s)))"

section \<open>The control-channel client (client/src/services/voiceAgentClient.ts)\<close>

text \<open>
  The fields of \<^verbatim>\<open>VoiceAgentClient\<close> that the reconnect logic reads and writes, with
  the constructor's values.
\<close>

record VoiceAgentClient =
  reconnectAttempts :: nat
  maxReconnectAttempts :: nat
  reconnectDelay :: nat

definition new_VoiceAgentClient :: VoiceAgentClient where
  "new_VoiceAgentClient =
     \<lparr>reconnectAttempts = 0, maxReconnectAttempts = 5, reconnectDelay = 1000\<rparr>"

text \<open>
  \<^verbatim>\<open>attemptReconnect\<close>: below the maximum the counter is incremented and \<^verbatim>\<open>connect\<close>
  is scheduled with \<^verbatim>\<open>setTimeout\<close>; the result carries the delay of the timer that was
  set, \<open>None\<close> when no timer was set.
\<close>

definition attemptReconnect :: "VoiceAgentClient \<Rightarrow> VoiceAgentClient \<times> nat option" where
  "attemptReconnect c =
     (if reconnectAttempts c < maxReconnectAttempts c
      then (let c' = c\<lparr>reconnectAttempts := reconnectAttempts c + 1\<rparr>
            in (c', Some (reconnectDelay c' * reconnectAttempts c')))
      else (c, None))"

text \<open>
  The socket callbacks installed by \<^verbatim>\<open>connect\<close>: \<^verbatim>\<open>onopen\<close> resets the counter,
  \<^verbatim>\<open>onclose\<close> calls \<^verbatim>\<open>attemptReconnect\<close>.
\<close>

datatype SocketEvent = onopen | onclose

fun socket_event :: "VoiceAgentClient \<Rightarrow> SocketEvent \<Rightarrow> VoiceAgentClient \<times> nat option" where
  "socket_event c onopen = (c\<lparr>reconnectAttempts := 0\<rparr>, None)"
| "socket_event c onclose = attemptReconnect c"

text \<open>The timers set over a sequence of socket events, one entry per event.\<close>

fun client_run :: "VoiceAgentClient \<Rightarrow> SocketEvent list \<Rightarrow> VoiceAgentClient \<times> nat option list" where
  "client_run c [] = (c, [])"
| "client_run c (e # es) =
     (let (c1, t) = socket_event c e; (c2, ts) = client_run c1 es in (c2, t # ts))"

section \<open>The server's data (src/server/voiceAgentServer.ts)\<close>

type_synonym buffer = "8 word list"

datatype Role = system | user | assistant

record Message =
  role :: Role
  content :: jsstring

text \<open>The fixed system turn that \<^verbatim>\<open>startConversation\<close> seeds the history with.\<close>

definition system_turn :: Message where
  "system_turn = \<lparr>role = system, content = js_str
     ''You are a helpful, friendly, and concise AI assistant. Keep responses brief and conversational for voice interaction. Respond in 1-2 sentences.''\<rparr>"

text \<open>
  A value caught by a \<^verbatim>\<open>catch\<close>: what \<^verbatim>\<open>error?.message\<close> reads (\<open>None\<close> when it is
  undefined) and what \<^verbatim>\<open>error?.toString()\<close> returns.
\<close>

record JsError =
  message :: "jsstring option"
  toString :: jsstring

text \<open>
  A session description as it travels in \<^verbatim>\<open>webrtc_offer\<close> and \<^verbatim>\<open>webrtc_answer\<close>. The
  fields of an incoming offer are untyped in the source, so each may be missing.
\<close>

record Offer =
  offer_type :: "jsstring option"
  offer_sdp :: "jsstring option"

record Answer =
  answer_type :: jsstring
  answer_sdp :: jsstring

text \<open>Control messages, named by their \<^verbatim>\<open>type\<close> tag. Server to peer:\<close>

datatype ServerMessage =
    session_ready jsstring
  | conversation_started
  | conversation_stopped
  | stt_transcript jsstring bool
  | llm_token jsstring
  | llm_complete jsstring
  | tts_text jsstring
  | interrupted
  | webrtc_answer Answer
  | local_ice_candidate jsstring
  | error jsstring

text \<open>
  Peer to server. \<open>audio_chunk\<close> holds the bytes that \<^verbatim>\<open>Buffer.from(data, 'base64')\<close>
  decodes; \<open>ice_candidate\<close> holds \<^verbatim>\<open>candidate?.candidate\<close>; \<open>other_type\<close> is any tag the
  \<^verbatim>\<open>switch\<close> of \<^verbatim>\<open>handleMessage\<close> has no case for.
\<close>

datatype ClientMessage =
    start_conversation
  | stop_conversation
  | audio_chunk buffer
  | webrtc_offer "Offer option"
  | ice_candidate "jsstring option"
  | interrupt
  | other_type

text \<open>
  What a handler does to the outside, in order: a frame written to the control channel,
  a method the coordinator calls on one of its components, and the calls the components
  make on the external engines (the recognition connection, the completion service, the
  peer connection).
\<close>

datatype Method =
    STT_start
  | STT_sendAudio buffer
  | STT_stop
  | LLM_streamCompletion "Message list"
  | LLM_stop
  | RTC_handleOffer
  | RTC_handleIceCandidate
  | RTC_cleanup

datatype Effect =
    ws_send ServerMessage
  | Calls Method
  | listen_live
  | connection_send buffer
  | connection_finish
  | completions_create "Message list"
  | peer_close
  | peer_addIceCandidate jsstring

subsection \<open>The recognition bridge (src/services/deepgramSTT.ts)\<close>

text \<open>
  \<open>connection\<close> says whether \<^verbatim>\<open>this.connection\<close> is set. The constructor raises when the
  API key is empty.
\<close>

record DeepgramSTT =
  connection :: bool
  isConnectionReady :: bool
  audioQueue :: "buffer list"
  audioChunkCount :: nat

definition new_DeepgramSTT :: "jsstring \<Rightarrow> JsError + DeepgramSTT" where
  "new_DeepgramSTT apiKey =
     (if apiKey = []
      then Inl \<lparr>message = Some (js_str ''DEEPGRAM_API_KEY is not set''),
                toString = js_str ''Error: DEEPGRAM_API_KEY is not set''\<rparr>
      else Inr \<lparr>connection = False, isConnectionReady = False, audioQueue = [],
                audioChunkCount = 0\<rparr>)"

text \<open>\<^verbatim>\<open>start\<close> up to the point where its promise waits for the engine's Open event.\<close>

definition DeepgramSTT_start :: "DeepgramSTT \<Rightarrow> DeepgramSTT \<times> Effect list" where
  "DeepgramSTT_start d = (d\<lparr>connection := True\<rparr>, [listen_live])"

text \<open>The Open handler: the queue is flushed in order; the promise of \<^verbatim>\<open>start\<close> resolves.\<close>

definition DeepgramSTT_Open :: "DeepgramSTT \<Rightarrow> DeepgramSTT \<times> Effect list" where
  "DeepgramSTT_Open d =
     (d\<lparr>isConnectionReady := True, audioQueue := []\<rparr>, map connection_send (audioQueue d))"

definition DeepgramSTT_Close :: "DeepgramSTT \<Rightarrow> DeepgramSTT" where
  "DeepgramSTT_Close d = d\<lparr>isConnectionReady := False\<rparr>"

text \<open>
  The Transcript handler. \<open>alt\<close> is \<^verbatim>\<open>data.channel?.alternatives?.[0]?.transcript\<close> and
  \<open>fin\<close> is \<^verbatim>\<open>data.is_final\<close>, each \<open>None\<close> when undefined. The result is the pair
  \<^verbatim>\<open>onTranscript\<close> is called with, \<open>None\<close> when it is not called. The coordinator assigns
  \<^verbatim>\<open>onTranscript\<close> before it calls \<^verbatim>\<open>start\<close>, so the callback is set whenever the handler
  runs.
\<close>

definition DeepgramSTT_Transcript :: "jsstring option \<Rightarrow> bool option \<Rightarrow> (jsstring \<times> bool) option" where
  "DeepgramSTT_Transcript alt fin =
     (let transcript = (case alt of None \<Rightarrow> [] | Some t \<Rightarrow> t);
          isFinal = (case fin of None \<Rightarrow> False | Some b \<Rightarrow> b)
      in if transcript \<noteq> [] \<and> js_trim transcript \<noteq> [] then Some (transcript, isFinal)
         else None)"

text \<open>
  \<^verbatim>\<open>sendAudio\<close> on the decoded bytes: an empty buffer is dropped; a ready bridge sends at
  once; otherwise the buffer is queued, and the oldest entry is shifted out once the queue
  holds more than 100.
\<close>

definition DeepgramSTT_sendAudio :: "DeepgramSTT \<Rightarrow> buffer \<Rightarrow> DeepgramSTT \<times> Effect list" where
  "DeepgramSTT_sendAudio d a =
     (if a = [] then (d, [])
      else if isConnectionReady d \<and> connection d
      then (d\<lparr>audioChunkCount := audioChunkCount d + 1\<rparr>, [connection_send a])
      else (let q = audioQueue d @ [a]
            in (d\<lparr>audioQueue := (if length q > 100 then tl q else q)\<rparr>, [])))"

text \<open>
  \<^verbatim>\<open>stop\<close>: \<^verbatim>\<open>connection.finish()\<close> runs inside \<^verbatim>\<open>try\<close>; \<open>throws\<close> says whether the engine
  raises there. The \<^verbatim>\<open>catch\<close> only logs, and the connection is dropped on both paths.
\<close>

definition DeepgramSTT_stop :: "bool \<Rightarrow> DeepgramSTT \<Rightarrow> DeepgramSTT \<times> Effect list" where
  "DeepgramSTT_stop throws d =
     (if connection d
      then (if throws then (d\<lparr>connection := False\<rparr>, [connection_finish])
            else (d\<lparr>connection := False\<rparr>, [connection_finish]))
      else (d, []))"

subsection \<open>The response pipeline (src/services/groqLLM.ts)\<close>

text \<open>
  \<open>currentStream\<close> holds the handle of the stream last stored by \<^verbatim>\<open>streamCompletion\<close>;
  streams are numbered in the order they are requested.
\<close>

record GroqLLM =
  currentStream :: "nat option"
  fullResponse :: jsstring

definition new_GroqLLM :: "jsstring \<Rightarrow> JsError + GroqLLM" where
  "new_GroqLLM apiKey =
     (if apiKey = []
      then Inl \<lparr>message = Some (js_str ''GROQ_API_KEY is not set''),
                toString = js_str ''Error: GROQ_API_KEY is not set''\<rparr>
      else Inr \<lparr>currentStream = None, fullResponse = []\<rparr>)"

definition GroqLLM_stop :: "GroqLLM \<Rightarrow> GroqLLM" where
  "GroqLLM_stop g =
     (if currentStream g \<noteq> None then g\<lparr>currentStream := None, fullResponse := []\<rparr> else g)"

text \<open>
  \<^verbatim>\<open>streamCompletion\<close> is asynchronous; each piece below is the code that runs without
  interruption between two of its waits.

  The call itself, up to \<^verbatim>\<open>await this.groq.chat.completions.create(...)\<close>: the flag says
  whether the request was made (it is not when the history is empty).
\<close>

definition streamCompletion_call :: "GroqLLM \<Rightarrow> Message list \<Rightarrow> GroqLLM \<times> bool" where
  "streamCompletion_call g history =
     (let g1 = (GroqLLM_stop g)\<lparr>fullResponse := []\<rparr>
      in if history = [] then (g1, False) else (g1, True))"

text \<open>The request resolved with stream \<open>k\<close>: the handle is stored and the loop starts.\<close>

definition streamCompletion_created :: "GroqLLM \<Rightarrow> nat \<Rightarrow> GroqLLM" where
  "streamCompletion_created g k = g\<lparr>currentStream := Some k\<rparr>"

text \<open>
  One turn of the \<^verbatim>\<open>for await\<close> loop, with \<open>c\<close> the chunk's
  \<^verbatim>\<open>choices[0]?.delta?.content || ''\<close>. The second component is the token \<^verbatim>\<open>onToken\<close> is
  called with. The loop body does not read \<^verbatim>\<open>currentStream\<close>.
\<close>

definition streamCompletion_chunk :: "GroqLLM \<Rightarrow> jsstring \<Rightarrow> GroqLLM \<times> jsstring option" where
  "streamCompletion_chunk g c =
     (if c \<noteq> [] then (g\<lparr>fullResponse := fullResponse g @ c\<rparr>, Some c) else (g, None))"

text \<open>
  The stream ended: \<^verbatim>\<open>onComplete\<close> is called with the buffer when it is not blank, and
  the handle is cleared.
\<close>

definition streamCompletion_end :: "GroqLLM \<Rightarrow> GroqLLM \<times> jsstring option" where
  "streamCompletion_end g =
     (g\<lparr>currentStream := None\<rparr>,
      if js_trim (fullResponse g) \<noteq> [] then Some (fullResponse g) else None)"

text \<open>
  The \<^verbatim>\<open>catch\<close> of \<^verbatim>\<open>streamCompletion\<close>: the error it raises to its caller.
\<close>

definition streamCompletion_catch :: "JsError \<Rightarrow> JsError" where
  "streamCompletion_catch e =
     (let fallback = (if toString e \<noteq> [] then toString e else js_str ''Unknown error'');
          errorMessage =
            (case message e of
               None \<Rightarrow> fallback
             | Some t \<Rightarrow> if t \<noteq> [] then t else fallback);
          m = js_str ''Groq LLM error: '' @ errorMessage
      in \<lparr>message = Some m, toString = js_str ''Error: '' @ m\<rparr>)"

subsection \<open>The transport negotiator (src/server/webrtcServer.ts)\<close>

text \<open>
  The peer connection is the werift library's \<^verbatim>\<open>RTCPeerConnection\<close>, which is not part of
  the repository. \<open>PeerConnection\<close> says how it answers the calls \<^verbatim>\<open>handleOffer\<close> makes,
  each as a function of what the call is given: \<open>None\<close> where a call returns, \<open>Some e\<close>
  where it raises \<open>e\<close>; \<^verbatim>\<open>createAnswer\<close> returns the answer to the remote description.
\<close>

record PeerConnection =
  setRemoteDescription :: "Offer \<Rightarrow> JsError option"
  createAnswer :: "Offer \<Rightarrow> JsError + Answer"
  setLocalDescription :: "Answer \<Rightarrow> JsError option"

text \<open>
  Modelled from the spec: \<^verbatim>\<open>setRemoteDescription\<close> of the peer connection, whose code is
  the library's. The spec has the negotiator validate that the offer has a non-empty
  description and has an offer with an empty SDP string end in an error; the code of
  \<^verbatim>\<open>handleOffer\<close> makes no check of its own and hands the description to this call. So
  the call raises for the empty SDP string (the library's message is
  \<open>invalid sessionDescription\<close>); for every other description its answer is the
  \<open>PeerConnection\<close>'s.
\<close>

definition RTCPeerConnection_setRemoteDescription :: "PeerConnection \<Rightarrow> Offer \<Rightarrow> JsError option" where
  "RTCPeerConnection_setRemoteDescription pc description =
     (if offer_sdp description = Some []
      then Some \<lparr>message = Some (js_str ''invalid sessionDescription''),
                  toString = js_str ''Error: invalid sessionDescription''\<rparr>
      else setRemoteDescription pc description)"

text \<open>
  \<^verbatim>\<open>handleOffer\<close>. \<open>has\<close> says whether the negotiator's registry holds a peer connection
  for the session; when it does not, \<^verbatim>\<open>createPeerConnection\<close> registers one. Reading
  \<^verbatim>\<open>offer.type\<close> of a missing offer raises a TypeError before anything else happens. The
  description is passed to the peer connection as it came; \<^verbatim>\<open>offer.sdp\<close> is otherwise read
  only for the log line. An error of the peer connection is logged and raised again.
\<close>

definition WebRTCServer_handleOffer ::
    "PeerConnection \<Rightarrow> bool \<Rightarrow> Offer option \<Rightarrow> bool \<times> (JsError + Answer)" where
  "WebRTCServer_handleOffer pc has offer =
     (case offer of
        None \<Rightarrow>
          (has, Inl \<lparr>message =
                       Some (js_str ''Cannot read properties of undefined (reading 'type')''),
                     toString =
                       js_str ''TypeError: Cannot read properties of undefined (reading 'type')''\<rparr>)
      | Some off \<Rightarrow>
          (case RTCPeerConnection_setRemoteDescription pc off of
             Some e \<Rightarrow> (True, Inl e)
           | None \<Rightarrow>
               (case createAnswer pc off of
                  Inl e \<Rightarrow> (True, Inl e)
                | Inr answer \<Rightarrow>
                    (case setLocalDescription pc answer of
                       Some e \<Rightarrow> (True, Inl e)
                     | None \<Rightarrow>
                         (True, Inr \<lparr>answer_type = answer_type answer,
                                     answer_sdp = answer_sdp answer\<rparr>)))))"

text \<open>\<^verbatim>\<open>cleanup\<close>: closes and unregisters the peer connection when there is one.\<close>

definition WebRTCServer_cleanup :: "bool \<Rightarrow> bool \<times> Effect list" where
  "WebRTCServer_cleanup has = (if has then (False, [peer_close]) else (False, []))"

text \<open>
  \<^verbatim>\<open>handleIceCandidate\<close>: without a registered peer connection or with an empty candidate
  nothing happens; an error of \<^verbatim>\<open>addIceCandidate\<close> is logged and dropped.
\<close>

definition WebRTCServer_handleIceCandidate :: "bool \<Rightarrow> jsstring option \<Rightarrow> Effect list" where
  "WebRTCServer_handleIceCandidate has candidate =
     (if has then
        (case candidate of
           None \<Rightarrow> []
         | Some c \<Rightarrow> if c \<noteq> [] then [peer_addIceCandidate c] else [])
      else [])"

text \<open>The connection states of the peer connection.\<close>

datatype PcState = pc_new | connecting | connected | disconnected | failed | closed

subsection \<open>The session and the coordinator (src/server/voiceAgentServer.ts)\<close>

text \<open>
  \<open>ws_open\<close> is \<^verbatim>\<open>ws.readyState === WebSocket.OPEN\<close>. \<open>useWebRTC\<close> is optional in the
  source: \<open>None\<close> is \<^verbatim>\<open>undefined\<close>.
\<close>

record ClientSession =
  ws_open :: bool
  sessionId :: jsstring
  deepgramSTT :: "DeepgramSTT option"
  groqLLM :: "GroqLLM option"
  isActive :: bool
  conversationHistory :: "Message list"
  useWebRTC :: "bool option"

text \<open>
  One peer's part of the server. The handlers registered on connect keep the session
  object in their closures (\<open>the_session\<close>) whether or not the registry still holds it
  (\<open>sessions_has\<close>); \<open>rtc_has\<close> is the negotiator's registry. \<open>starting\<close> says that a
  \<^verbatim>\<open>startConversation\<close> waits for the bridge to open; \<open>requested\<close> and \<open>streaming\<close> list
  the \<^verbatim>\<open>streamCompletion\<close> calls of the live pipeline instance that wait for their stream
  and that iterate it; \<open>next_stream\<close> numbers the next request. The remaining fields are
  the environment: the two API keys of \<^verbatim>\<open>process.env\<close>, the peer connection's answers and
  whether the engine's \<^verbatim>\<open>finish\<close> raises.

  Events of a bridge or pipeline instance that a later \<^verbatim>\<open>startConversation\<close> replaced are
  not modelled.
\<close>

record Server =
  the_session :: ClientSession
  sessions_has :: bool
  rtc_has :: bool
  starting :: bool
  requested :: "nat list"
  streaming :: "nat list"
  next_stream :: nat
  DEEPGRAM_API_KEY :: jsstring
  GROQ_API_KEY :: jsstring
  peer :: PeerConnection
  finish_throws :: bool

definition sendMessage :: "ClientSession \<Rightarrow> ServerMessage \<Rightarrow> Effect list" where
  "sendMessage s m = (if ws_open s then [ws_send m] else [])"

definition sendError :: "ClientSession \<Rightarrow> jsstring \<Rightarrow> Effect list" where
  "sendError s e = sendMessage s (error e)"

text \<open>
  The \<^verbatim>\<open>connection\<close> handler of the socket server: the state it leaves for a new peer and
  the \<^verbatim>\<open>session_ready\<close> it sends.
\<close>

definition on_connection ::
    "jsstring \<Rightarrow> jsstring \<Rightarrow> jsstring \<Rightarrow> PeerConnection \<Rightarrow> bool \<Rightarrow> Server \<times> Effect list" where
  "on_connection sid dkey gkey pc ft =
     (let s = \<lparr>ws_open = True, sessionId = sid, deepgramSTT = None, groqLLM = None,
                isActive = False, conversationHistory = [], useWebRTC = None\<rparr>
      in (\<lparr>the_session = s, sessions_has = True, rtc_has = False, starting = False,
           requested = [], streaming = [], next_stream = 0,
           DEEPGRAM_API_KEY = dkey, GROQ_API_KEY = gkey, peer = pc, finish_throws = ft\<rparr>,
          sendMessage s (session_ready sid)))"

text \<open>
  \<^verbatim>\<open>cleanupSession\<close>. A session that is no longer in the registry is left alone. The
  awaited \<^verbatim>\<open>stop\<close> of the bridge has no wait of its own, so the whole body runs as one
  step.
\<close>

definition cleanupSession :: "Server \<Rightarrow> Server \<times> Effect list" where
  "cleanupSession w =
     (if \<not> sessions_has w then (w, [])
      else
        (let s = (the_session w)\<lparr>isActive := False\<rparr>;
             (rtc, fx1) = WebRTCServer_cleanup (rtc_has w);
             (d, fx2) =
               (case deepgramSTT s of
                  None \<Rightarrow> (None, [])
                | Some d0 \<Rightarrow>
                    (let (d1, f) = DeepgramSTT_stop (finish_throws w) d0
                     in (Some d1, Calls STT_stop # f)));
             (g, fx3) =
               (case groqLLM s of
                  None \<Rightarrow> (None, [])
                | Some g0 \<Rightarrow> (Some (GroqLLM_stop g0), [Calls LLM_stop]))
         in (w\<lparr>the_session := s\<lparr>deepgramSTT := d, groqLLM := g\<rparr>,
               sessions_has := False, rtc_has := rtc\<rparr>,
             Calls RTC_cleanup # fx1 @ fx2 @ fx3)))"

text \<open>
  \<^verbatim>\<open>startConversation\<close> up to \<^verbatim>\<open>await session.deepgramSTT.start()\<close>. A constructor that
  raises leads to the \<^verbatim>\<open>catch\<close>: an error message, then \<^verbatim>\<open>cleanupSession\<close>.
\<close>

definition startConversation_catch :: "Server \<Rightarrow> Server \<times> Effect list" where
  "startConversation_catch w =
     (let fx = sendError (the_session w) (js_str ''Failed to start conversation'');
          (w1, fx1) = cleanupSession w
      in (w1, fx @ fx1))"

definition startConversation :: "Server \<Rightarrow> Server \<times> Effect list" where
  "startConversation w =
     (let s = the_session w in
      if isActive s then (w, [])
      else
        (let s1 = s\<lparr>conversationHistory := [system_turn]\<rparr> in
         case new_DeepgramSTT (DEEPGRAM_API_KEY w) of
           Inl e \<Rightarrow> startConversation_catch (w\<lparr>the_session := s1\<rparr>)
         | Inr d \<Rightarrow>
             (let s2 = s1\<lparr>deepgramSTT := Some d\<rparr> in
              case new_GroqLLM (GROQ_API_KEY w) of
                Inl e \<Rightarrow> startConversation_catch (w\<lparr>the_session := s2\<rparr>)
              | Inr g \<Rightarrow>
                  (let (d1, fx) = DeepgramSTT_start d;
                       s3 = s2\<lparr>deepgramSTT := Some d1, groqLLM := Some g\<rparr>
                   in (w\<lparr>the_session := s3, starting := True, requested := [],
                         streaming := []\<rparr>,
                       Calls STT_start # fx)))))"

text \<open>
  The engine's Open event: the bridge's handler, then, when \<^verbatim>\<open>startConversation\<close> waits
  on the promise, the rest of it.
\<close>

definition on_Open :: "Server \<Rightarrow> Server \<times> Effect list" where
  "on_Open w =
     (let s = the_session w in
      case deepgramSTT s of
        None \<Rightarrow> (w, [])
      | Some d \<Rightarrow>
          (let (d1, fx) = DeepgramSTT_Open d;
               s1 = s\<lparr>deepgramSTT := Some d1\<rparr>
           in if starting w
              then (let s2 = s1\<lparr>isActive := True\<rparr>
                    in (w\<lparr>the_session := s2, starting := False\<rparr>,
                        fx @ sendMessage s2 conversation_started))
              else (w\<lparr>the_session := s1\<rparr>, fx)))"

definition on_Close :: "Server \<Rightarrow> Server \<times> Effect list" where
  "on_Close w =
     (let s = the_session w in
      case deepgramSTT s of
        None \<Rightarrow> (w, [])
      | Some d \<Rightarrow> (w\<lparr>the_session := s\<lparr>deepgramSTT := Some (DeepgramSTT_Close d)\<rparr>\<rparr>, []))"

text \<open>
  \<^verbatim>\<open>stopConversation\<close>: the \<^verbatim>\<open>conversation_stopped\<close> message is sent after the cleanup.
\<close>

definition stopConversation :: "Server \<Rightarrow> Server \<times> Effect list" where
  "stopConversation w =
     (if \<not> isActive (the_session w) then (w, [])
      else (let (w1, fx) = cleanupSession w
            in (w1, fx @ sendMessage (the_session w1) conversation_stopped)))"

definition handleInterrupt :: "Server \<Rightarrow> Server \<times> Effect list" where
  "handleInterrupt w =
     (let s = the_session w;
          (s1, fx) =
            (case groqLLM s of
               None \<Rightarrow> (s, [])
             | Some g \<Rightarrow> (s\<lparr>groqLLM := Some (GroqLLM_stop g)\<rparr>, [Calls LLM_stop]))
      in (w\<lparr>the_session := s1\<rparr>, fx @ sendMessage s1 interrupted))"

text \<open>
  \<^verbatim>\<open>processLLM\<close> up to the wait inside \<^verbatim>\<open>streamCompletion\<close>: the user turn is pushed and
  the pipeline is called with the history.
\<close>

definition processLLM :: "Server \<Rightarrow> jsstring \<Rightarrow> Server \<times> Effect list" where
  "processLLM w transcript =
     (let s = the_session w in
      case groqLLM s of
        None \<Rightarrow> (w, [])
      | Some g \<Rightarrow>
          if \<not> isActive s \<or> js_trim transcript = [] then (w, [])
          else
            (let h = conversationHistory s @ [\<lparr>role = user, content = js_trim transcript\<rparr>];
                 (g1, asked) = streamCompletion_call g h;
                 s1 = s\<lparr>conversationHistory := h, groqLLM := Some g1\<rparr>
             in if asked
                then (w\<lparr>the_session := s1, requested := requested w @ [next_stream w],
                        next_stream := next_stream w + 1\<rparr>,
                      [Calls (LLM_streamCompletion h), completions_create h])
                else (w\<lparr>the_session := s1\<rparr>, [Calls (LLM_streamCompletion h)])))"

text \<open>
  The \<^verbatim>\<open>catch\<close> of \<^verbatim>\<open>processLLM\<close>, entered when \<^verbatim>\<open>streamCompletion\<close> raises: the last
  turn is popped when it is a user turn, and the error is reported.
\<close>

definition processLLM_catch :: "Server \<Rightarrow> JsError \<Rightarrow> Server \<times> Effect list" where
  "processLLM_catch w e =
     (let s = the_session w;
          h = conversationHistory s;
          s1 = (if h \<noteq> [] \<and> role (last h) = user
                then s\<lparr>conversationHistory := butlast h\<rparr> else s);
          reported =
            (case message e of
               None \<Rightarrow> js_str ''LLM processing failed''
             | Some t \<Rightarrow> if t \<noteq> [] then t else js_str ''LLM processing failed'')
      in (w\<lparr>the_session := s1\<rparr>, sendError s1 reported))"

text \<open>The callbacks \<^verbatim>\<open>startConversation\<close> assigns to the pipeline and the bridge.\<close>

definition onToken :: "Server \<Rightarrow> jsstring \<Rightarrow> Server \<times> Effect list" where
  "onToken w token = (w, sendMessage (the_session w) (llm_token token))"

definition onComplete :: "Server \<Rightarrow> jsstring \<Rightarrow> Server \<times> Effect list" where
  "onComplete w r =
     (let s = the_session w;
          s1 = (if js_trim r \<noteq> []
                then s\<lparr>conversationHistory :=
                         conversationHistory s @ [\<lparr>role = assistant, content = js_trim r\<rparr>]\<rparr>
                else s)
      in (w\<lparr>the_session := s1\<rparr>,
          sendMessage s1 (llm_complete r) @
          (if js_trim r \<noteq> [] then sendMessage s1 (tts_text r) else [])))"

definition onTranscript :: "Server \<Rightarrow> jsstring \<Rightarrow> bool \<Rightarrow> Server \<times> Effect list" where
  "onTranscript w transcript isFinal =
     (let fx = sendMessage (the_session w) (stt_transcript transcript isFinal)
      in if isFinal \<and> js_trim transcript \<noteq> []
         then (let (w1, fx1) = processLLM w transcript in (w1, fx @ fx1))
         else (w, fx))"

text \<open>
  The continuations of a \<^verbatim>\<open>streamCompletion\<close> call made by \<^verbatim>\<open>processLLM\<close>, run on the
  session's pipeline: the request resolves with stream \<open>k\<close>; the stream yields a chunk;
  the stream ends; the request or the stream raises, which \<^verbatim>\<open>streamCompletion\<close> passes
  on to the \<^verbatim>\<open>catch\<close> of \<^verbatim>\<open>processLLM\<close>.
\<close>

definition on_created :: "Server \<Rightarrow> nat \<Rightarrow> Server \<times> Effect list" where
  "on_created w k =
     (let s = the_session w in
      case groqLLM s of
        None \<Rightarrow> (w, [])
      | Some g \<Rightarrow>
          (w\<lparr>the_session := s\<lparr>groqLLM := Some (streamCompletion_created g k)\<rparr>,
             requested := remove1 k (requested w), streaming := streaming w @ [k]\<rparr>, []))"

definition on_chunk :: "Server \<Rightarrow> jsstring \<Rightarrow> Server \<times> Effect list" where
  "on_chunk w c =
     (let s = the_session w in
      case groqLLM s of
        None \<Rightarrow> (w, [])
      | Some g \<Rightarrow>
          (let (g1, token) = streamCompletion_chunk g c;
               w1 = w\<lparr>the_session := s\<lparr>groqLLM := Some g1\<rparr>\<rparr>
           in case token of None \<Rightarrow> (w1, []) | Some t \<Rightarrow> onToken w1 t))"

definition on_stream_end :: "Server \<Rightarrow> nat \<Rightarrow> Server \<times> Effect list" where
  "on_stream_end w k =
     (let s = the_session w in
      case groqLLM s of
        None \<Rightarrow> (w, [])
      | Some g \<Rightarrow>
          (let (g1, r) = streamCompletion_end g;
               w1 = w\<lparr>the_session := s\<lparr>groqLLM := Some g1\<rparr>,
                      streaming := remove1 k (streaming w)\<rparr>
           in case r of None \<Rightarrow> (w1, []) | Some t \<Rightarrow> onComplete w1 t))"

definition on_failed :: "Server \<Rightarrow> nat \<Rightarrow> JsError \<Rightarrow> Server \<times> Effect list" where
  "on_failed w k e =
     processLLM_catch
       (w\<lparr>requested := remove1 k (requested w), streaming := remove1 k (streaming w)\<rparr>)
       (streamCompletion_catch e)"

text \<open>
  \<^verbatim>\<open>handleWebRTCOffer\<close>: the flag is set before the negotiator is asked and is not reset
  when the negotiator raises.
\<close>

definition handleWebRTCOffer :: "Server \<Rightarrow> Offer option \<Rightarrow> Server \<times> Effect list" where
  "handleWebRTCOffer w offer =
     (let s = (the_session w)\<lparr>useWebRTC := Some True\<rparr>;
          (has, res) = WebRTCServer_handleOffer (peer w) (rtc_has w) offer;
          w1 = w\<lparr>the_session := s, rtc_has := has\<rparr>
      in case res of
           Inr answer \<Rightarrow> (w1, Calls RTC_handleOffer # sendMessage s (webrtc_answer answer))
         | Inl e \<Rightarrow>
             (w1, Calls RTC_handleOffer #
                  sendError s (js_str ''WebRTC setup error: '' @
                    (case message e of None \<Rightarrow> js_str ''undefined'' | Some t \<Rightarrow> t))))"

definition handleWebRTCIceCandidate :: "Server \<Rightarrow> jsstring option \<Rightarrow> Server \<times> Effect list" where
  "handleWebRTCIceCandidate w candidate =
     (if candidate = None \<or> candidate = Some [] then (w, [])
      else (w, Calls RTC_handleIceCandidate #
               WebRTCServer_handleIceCandidate (rtc_has w) candidate))"

text \<open>\<^verbatim>\<open>handleMessage\<close>, one equation per case of its \<^verbatim>\<open>switch\<close>.\<close>

fun handleMessage :: "Server \<Rightarrow> ClientMessage \<Rightarrow> Server \<times> Effect list" where
  "handleMessage w start_conversation = startConversation w"
| "handleMessage w stop_conversation = stopConversation w"
| "handleMessage w (audio_chunk a) =
     (let s = the_session w in
      case deepgramSTT s of
        None \<Rightarrow> (w, [])
      | Some d \<Rightarrow>
          if isActive s \<and> useWebRTC s \<noteq> Some True
          then (let (d1, fx) = DeepgramSTT_sendAudio d a
                in (w\<lparr>the_session := s\<lparr>deepgramSTT := Some d1\<rparr>\<rparr>,
                    Calls (STT_sendAudio a) # fx))
          else (w, []))"
| "handleMessage w (webrtc_offer offer) = handleWebRTCOffer w offer"
| "handleMessage w (ice_candidate candidate) = handleWebRTCIceCandidate w candidate"
| "handleMessage w interrupt = handleInterrupt w"
| "handleMessage w other_type = (w, [])"

text \<open>
  The handlers \<^verbatim>\<open>setupWebRTC\<close> registers on the negotiator. Each looks the session up in
  the registry first. The negotiator reports the connection states \<open>failed\<close>, \<open>closed\<close>,
  \<open>disconnected\<close> and \<open>connected\<close> only.
\<close>

definition on_connectionStateChange :: "Server \<Rightarrow> PcState \<Rightarrow> Server \<times> Effect list" where
  "on_connectionStateChange w st =
     (if st \<in> {failed, closed, disconnected, connected} \<and> sessions_has w
      then (w\<lparr>the_session := (the_session w)\<lparr>useWebRTC := Some (st = connected)\<rparr>\<rparr>, [])
      else (w, []))"

definition on_iceConnectionFailed :: "Server \<Rightarrow> Server \<times> Effect list" where
  "on_iceConnectionFailed w =
     (if sessions_has w
      then (w\<lparr>the_session := (the_session w)\<lparr>useWebRTC := Some False\<rparr>\<rparr>, [])
      else (w, []))"

definition on_iceCandidate :: "Server \<Rightarrow> jsstring \<Rightarrow> Server \<times> Effect list" where
  "on_iceCandidate w c =
     (if sessions_has w \<and> ws_open (the_session w)
      then (w, sendMessage (the_session w) (local_ice_candidate c))
      else (w, []))"

definition on_audioData :: "Server \<Rightarrow> buffer \<Rightarrow> Server \<times> Effect list" where
  "on_audioData w a =
     (let s = the_session w in
      if sessions_has w then
        (case deepgramSTT s of
           None \<Rightarrow> (w, [])
         | Some d \<Rightarrow>
             if isActive s \<and> useWebRTC s \<noteq> Some False
             then (let (d1, fx) = DeepgramSTT_sendAudio d a
                   in (w\<lparr>the_session := s\<lparr>deepgramSTT := Some d1, useWebRTC := Some True\<rparr>\<rparr>,
                       Calls (STT_sendAudio a) # fx))
             else (w, []))
      else (w, []))"

definition on_dataChannelOpen :: "Server \<Rightarrow> Server \<times> Effect list" where
  "on_dataChannelOpen w =
     (if sessions_has w
      then (w\<lparr>the_session := (the_session w)\<lparr>useWebRTC := Some True\<rparr>\<rparr>, [])
      else (w, []))"

definition on_dataChannelClose :: "Server \<Rightarrow> Server \<times> Effect list" where
  "on_dataChannelClose w =
     (if sessions_has w
      then (w\<lparr>the_session := (the_session w)\<lparr>useWebRTC := Some False\<rparr>\<rparr>, [])
      else (w, []))"

text \<open>The socket's own handlers.\<close>

definition on_message_invalid :: "Server \<Rightarrow> Server \<times> Effect list" where
  "on_message_invalid w = (w, sendError (the_session w) (js_str ''Invalid message format''))"

definition on_ws_close :: "Server \<Rightarrow> Server \<times> Effect list" where
  "on_ws_close w = cleanupSession (w\<lparr>the_session := (the_session w)\<lparr>ws_open := False\<rparr>\<rparr>)"

subsection \<open>Events and runs\<close>

text \<open>
  What can happen to a session: a frame on the control channel (parsed, or not
  parseable), the channel closing or failing, the recognition engine's Open, Transcript
  and Close events, the events of the completion requests (by stream number), and the
  negotiator's events. The recognition engine's Error event is left out.
\<close>

datatype Event =
    ws_message ClientMessage
  | ws_message_invalid
  | ws_close
  | ws_error
  | stt_Open
  | stt_Transcript "jsstring option" "bool option"
  | stt_Close
  | llm_created nat
  | llm_create_rejected nat JsError
  | llm_chunk nat jsstring
  | llm_stream_end nat
  | llm_stream_error nat JsError
  | rtc_connectionStateChange PcState
  | rtc_iceConnectionFailed
  | rtc_iceCandidate jsstring
  | rtc_audioData buffer
  | rtc_dataChannelOpen
  | rtc_dataChannelClose

text \<open>
  One event handled to completion. The result is \<open>None\<close> when the event cannot occur in
  the state: a frame on a closed channel, an engine event without a bridge (Open only
  while the bridge holds its connection), a stream event for a request that is not in
  that phase, a negotiator event without a peer connection.
\<close>

fun step :: "Server \<Rightarrow> Event \<Rightarrow> (Server \<times> Effect list) option" where
  "step w (ws_message m) =
     (if ws_open (the_session w) then Some (handleMessage w m) else None)"
| "step w ws_message_invalid =
     (if ws_open (the_session w) then Some (on_message_invalid w) else None)"
| "step w ws_close = (if ws_open (the_session w) then Some (on_ws_close w) else None)"
| "step w ws_error = (if ws_open (the_session w) then Some (cleanupSession w) else None)"
| "step w stt_Open =
     (case deepgramSTT (the_session w) of
        None \<Rightarrow> None
      | Some d \<Rightarrow> if connection d then Some (on_Open w) else None)"
| "step w (stt_Transcript alt fin) =
     (case deepgramSTT (the_session w) of
        None \<Rightarrow> None
      | Some d \<Rightarrow>
          (case DeepgramSTT_Transcript alt fin of
             None \<Rightarrow> Some (w, [])
           | Some (transcript, isFinal) \<Rightarrow> Some (onTranscript w transcript isFinal)))"
| "step w stt_Close =
     (case deepgramSTT (the_session w) of None \<Rightarrow> None | Some d \<Rightarrow> Some (on_Close w))"
| "step w (llm_created k) = (if k \<in> set (requested w) then Some (on_created w k) else None)"
| "step w (llm_create_rejected k e) =
     (if k \<in> set (requested w) then Some (on_failed w k e) else None)"
| "step w (llm_chunk k c) = (if k \<in> set (streaming w) then Some (on_chunk w c) else None)"
| "step w (llm_stream_end k) =
     (if k \<in> set (streaming w) then Some (on_stream_end w k) else None)"
| "step w (llm_stream_error k e) =
     (if k \<in> set (streaming w) then Some (on_failed w k e) else None)"
| "step w (rtc_connectionStateChange st) =
     (if rtc_has w then Some (on_connectionStateChange w st) else None)"
| "step w rtc_iceConnectionFailed =
     (if rtc_has w then Some (on_iceConnectionFailed w) else None)"
| "step w (rtc_iceCandidate c) = (if rtc_has w then Some (on_iceCandidate w c) else None)"
| "step w (rtc_audioData a) = (if rtc_has w then Some (on_audioData w a) else None)"
| "step w rtc_dataChannelOpen = (if rtc_has w then Some (on_dataChannelOpen w) else None)"
| "step w rtc_dataChannelClose = (if rtc_has w then Some (on_dataChannelClose w) else None)"

text \<open>A sequence of events, with the effects of all of them in order.\<close>

fun run :: "Server \<Rightarrow> Event list \<Rightarrow> (Server \<times> Effect list) option" where
  "run w [] = Some (w, [])"
| "run w (e # es) =
     (case step w e of
        None \<Rightarrow> None
      | Some (w1, fx1) \<Rightarrow>
          (case run w1 es of
             None \<Rightarrow> None
           | Some (w2, fx2) \<Rightarrow> Some (w2, fx1 @ fx2)))"

subsection \<open>Reading the effects of a run\<close>

text \<open>
  The control messages among some effects, and the methods the coordinator called on
  its components, each in order.
\<close>

fun sent :: "Effect list \<Rightarrow> ServerMessage list" where
  "sent [] = []"
| "sent (ws_send m # fx) = m # sent fx"
| "sent (_ # fx) = sent fx"

fun calls :: "Effect list \<Rightarrow> Method list" where
  "calls [] = []"
| "calls (Calls m # fx) = m # calls fx"
| "calls (_ # fx) = calls fx"

text \<open>
  A generation request among some effects: the coordinator calling
  \<^verbatim>\<open>streamCompletion\<close>, or the pipeline asking the completion service.
\<close>

fun is_generation :: "Effect \<Rightarrow> bool" where
  "is_generation (Calls (LLM_streamCompletion h)) = True"
| "is_generation (completions_create h) = True"
| "is_generation _ = False"

definition invokes_pipeline :: "Effect list \<Rightarrow> bool" where
  "invokes_pipeline fx = list_ex is_generation fx"

text \<open>The parts of a run's result; a run that cannot happen has none.\<close>

definition effects_of :: "(Server \<times> Effect list) option \<Rightarrow> Effect list" where
  "effects_of r = (case r of None \<Rightarrow> [] | Some (w, fx) \<Rightarrow> fx)"

definition history_after :: "(Server \<times> Effect list) option \<Rightarrow> Message list" where
  "history_after r =
     (case r of None \<Rightarrow> [] | Some (w, fx) \<Rightarrow> conversationHistory (the_session w))"

definition streaming_after :: "(Server \<times> Effect list) option \<Rightarrow> nat list" where
  "streaming_after r = (case r of None \<Rightarrow> [] | Some (w, fx) \<Rightarrow> streaming w)"

subsection \<open>Example states and inputs\<close>

text \<open>
  A peer connection that accepts every description it is asked about; the state right
  after a peer connected, with both API keys set; the same session after
  \<^verbatim>\<open>start_conversation\<close> and the engine's Open event; an offer with an SDP and an offer
  whose SDP is the empty string; the error of a completion request that timed out.
\<close>

definition example_peer :: PeerConnection where
  "example_peer =
     \<lparr>setRemoteDescription = (\<lambda>description. None),
      createAnswer =
        (\<lambda>description. Inr \<lparr>answer_type = js_str ''answer'', answer_sdp = js_str ''v=0''\<rparr>),
      setLocalDescription = (\<lambda>answer. None)\<rparr>"

definition fresh_server :: Server where
  "fresh_server =
     fst (on_connection (js_str ''session_1'') (js_str ''dg-key'') (js_str ''gq-key'')
            example_peer False)"

definition active_server :: Server where
  "active_server = fst (on_Open (fst (startConversation fresh_server)))"

definition example_offer :: Offer where
  "example_offer = \<lparr>offer_type = Some (js_str ''offer''), offer_sdp = Some (js_str ''v=0'')\<rparr>"

definition empty_sdp_offer :: Offer where
  "empty_sdp_offer = \<lparr>offer_type = Some (js_str ''offer''), offer_sdp = Some []\<rparr>"

definition timeout_error :: JsError where
  "timeout_error =
     \<lparr>message = Some (js_str ''Request timed out.''),
      toString = js_str ''Error: Request timed out.''\<rparr>"

section \<open>Shared facts about effects\<close>

lemma effects_of_Some [simp]: "effects_of (Some r) = snd r"
  by (simp add: effects_of_def split_beta)

lemma effects_of_None [simp]: "effects_of None = []"
  by (simp add: effects_of_def)

section \<open>Interrupt\<close>

text \<open>
  C1, as the code has it. An \<^verbatim>\<open>interrupt\<close> request changes the session in one place
  only: \<^verbatim>\<open>stop\<close> is applied to the response pipeline when there is one, after which the
  pipeline holds no stream handle. The active flag, the history and everything else stay
  as they were. The request sends exactly one \<^verbatim>\<open>interrupted\<close> message when the control
  channel is open, and no other message (so no \<^verbatim>\<open>error\<close>). A second request leaves the
  state as the first left it and sends \<^verbatim>\<open>interrupted\<close> again: two requests in a row send
  two \<^verbatim>\<open>interrupted\<close> messages.
\<close>

theorem interrupt_stops_pipeline_and_sends_interrupted:
  "fst (handleInterrupt w) =
     w\<lparr>the_session := (the_session w)
          \<lparr>groqLLM := map_option GroqLLM_stop (groqLLM (the_session w))\<rparr>\<rparr>
   \<and> (case groqLLM (the_session (fst (handleInterrupt w))) of
        None \<Rightarrow> True
      | Some g \<Rightarrow> currentStream g = None)
   \<and> sent (snd (handleInterrupt w)) = (if ws_open (the_session w) then [interrupted] else [])
   \<and> fst (handleInterrupt (fst (handleInterrupt w))) = fst (handleInterrupt w)
   \<and> sent (effects_of (run w [ws_message interrupt, ws_message interrupt])) =
       (if ws_open (the_session w) then [interrupted, interrupted] else [])"
  by (cases "groqLLM (the_session w)")
    (auto simp: handleInterrupt_def sendMessage_def GroqLLM_stop_def Let_def)

text \<open>The same at the example session, whose control channel is open.\<close>

theorem interrupt_stops_pipeline_and_sends_interrupted_witness:
  "sent (snd (handleInterrupt active_server)) = [interrupted]
   \<and> sent (effects_of (run active_server [ws_message interrupt, ws_message interrupt])) =
       [interrupted, interrupted]"
proof -
  have h: "ws_open (the_session active_server)"
    by code_simp
  from interrupt_stops_pipeline_and_sends_interrupted [of active_server] h show ?thesis
    by simp
qed

text \<open>
  Against C1 as stated: with a completion streaming, two \<^verbatim>\<open>interrupt\<close> requests in a row
  are answered by two \<^verbatim>\<open>interrupted\<close> messages, not one.
\<close>

theorem interrupt_twice_counterexample:
  "count_list
     (sent (effects_of (run active_server
        [stt_Transcript (Some (js_str ''hello'')) (Some True), llm_created 0,
         llm_chunk 0 (js_str ''Hi''), ws_message interrupt, ws_message interrupt])))
     interrupted = 2"
  by code_simp

section \<open>Completions in flight\<close>

text \<open>
  C2, evaluated on the code. A first final transcript starts stream 0, which yields a
  token; a second final transcript calls \<^verbatim>\<open>streamCompletion\<close> again, which starts stream
  1. Both loops are then running (\<open>streaming\<close> holds 0 and 1), and the tokens of both are
  forwarded: \<^verbatim>\<open>stop\<close> cleared the handle but did not end the loop of stream 0.
\<close>

theorem two_completions_in_flight:
  "streaming_after (run active_server
      [stt_Transcript (Some (js_str ''one'')) (Some True), llm_created 0,
       llm_chunk 0 (js_str ''A''),
       stt_Transcript (Some (js_str ''two'')) (Some True), llm_created 1,
       llm_chunk 0 (js_str ''B''), llm_chunk 1 (js_str ''C'')]) = [0, 1]
   \<and> sent (effects_of (run active_server
      [stt_Transcript (Some (js_str ''one'')) (Some True), llm_created 0,
       llm_chunk 0 (js_str ''A''),
       stt_Transcript (Some (js_str ''two'')) (Some True), llm_created 1,
       llm_chunk 0 (js_str ''B''), llm_chunk 1 (js_str ''C'')])) =
     [stt_transcript (js_str ''one'') True, llm_token (js_str ''A''),
      stt_transcript (js_str ''two'') True, llm_token (js_str ''B''),
      llm_token (js_str ''C'')]"
  by code_simp

text \<open>
  In general: a further call of \<^verbatim>\<open>processLLM\<close> removes no stream from the ones being
  iterated, whatever it does to the handle.
\<close>

lemma processLLM_keeps_streaming: "streaming (fst (processLLM w t)) = streaming w"
  by (simp add: processLLM_def streamCompletion_call_def Let_def split: option.splits)

section \<open>History rollback\<close>

text \<open>
  C3, evaluated on the code. Two final transcripts arrive before the first completion
  request is answered, then the first request fails. The \<^verbatim>\<open>catch\<close> of \<^verbatim>\<open>processLLM\<close>
  pops the last turn, which is the second transcript's; the turn of the failed
  generation stays. The history then holds two turns, one more than before the failed
  generation's turn was appended.
\<close>

theorem overlapping_failure_keeps_failed_turn:
  "history_after (run active_server
      [stt_Transcript (Some (js_str ''one'')) (Some True),
       stt_Transcript (Some (js_str ''two'')) (Some True),
       llm_create_rejected 0 timeout_error]) =
     [system_turn, \<lparr>role = user, content = js_str ''one''\<rparr>]
   \<and> conversationHistory (the_session active_server) = [system_turn]"
  by code_simp

lemma processLLM_history:
  "groqLLM (the_session w) \<noteq> None \<Longrightarrow> isActive (the_session w) \<Longrightarrow> js_trim t \<noteq> [] \<Longrightarrow>
   conversationHistory (the_session (fst (processLLM w t))) =
     conversationHistory (the_session w) @ [\<lparr>role = user, content = js_trim t\<rparr>]"
  by (cases "groqLLM (the_session w)")
    (auto simp: processLLM_def streamCompletion_call_def Let_def)

text \<open>
  Where the rollback does work. Let a final transcript \<open>t\<close> trigger a generation in state
  \<open>w\<close>, and let the request or its stream fail in a later state \<open>w'\<close> whose history is
  still the one \<^verbatim>\<open>processLLM\<close> left (no turn was appended or removed in between). Then
  the failure handler restores the history of \<open>w\<close>, keeps the active flag, and sends one
  \<^verbatim>\<open>error\<close> message when the control channel is open.
\<close>

lemma failed_generation_rolls_back:
  assumes "groqLLM (the_session w) \<noteq> None" and "isActive (the_session w)"
    and "js_trim t \<noteq> []"
    and "conversationHistory (the_session w') =
         conversationHistory (the_session (fst (processLLM w t)))"
  shows "conversationHistory (the_session (fst (on_failed w' k e))) =
           conversationHistory (the_session w)
         \<and> isActive (the_session (fst (on_failed w' k e))) = isActive (the_session w')
         \<and> (\<exists>m. sent (snd (on_failed w' k e)) =
               (if ws_open (the_session w') then [error (js_str ''Groq LLM error: '' @ m)]
                else []))"
proof -
  have h: "conversationHistory (the_session w') =
      conversationHistory (the_session w) @ [\<lparr>role = user, content = js_trim t\<rparr>]"
    using assms by (simp add: processLLM_history)
  obtain m where m: "message (streamCompletion_catch e) = Some (js_str ''Groq LLM error: '' @ m)"
    by (simp add: streamCompletion_catch_def Let_def)
  have ne: "js_str ''Groq LLM error: '' @ m \<noteq> []"
    by (simp add: js_str_def)
  show ?thesis
    using h m ne
    by (auto simp: on_failed_def processLLM_catch_def sendError_def sendMessage_def Let_def)
qed

text \<open>
  At the example session: the transcript \<open>hello\<close> triggers request 0, the request
  resolves and an \<^verbatim>\<open>interrupt\<close> arrives, then the stream fails.
\<close>

lemma failed_generation_rolls_back_example:
  "conversationHistory (the_session
        (fst (on_failed
           (fst (handleInterrupt (fst (on_created (fst (processLLM active_server (js_str ''hello''))) 0))))
           0 timeout_error))) =
       conversationHistory (the_session active_server)"
proof -
  let ?w' = "fst (handleInterrupt (fst (on_created (fst (processLLM active_server (js_str ''hello''))) 0)))"
  have h1: "groqLLM (the_session active_server) \<noteq> None"
    by code_simp
  have h2: "isActive (the_session active_server)"
    by code_simp
  have h3: "js_trim (js_str ''hello'') \<noteq> []"
    by code_simp
  have h4: "conversationHistory (the_session ?w') =
      conversationHistory (the_session (fst (processLLM active_server (js_str ''hello''))))"
    by code_simp
  from failed_generation_rolls_back [OF h1 h2 h3 h4, of 0 timeout_error]
  show ?thesis
    by blast
qed

section \<open>Tokens after stop\<close>

text \<open>
  C4, evaluated on the code. Stream 0 yields \<open>Hi\<close>; an \<^verbatim>\<open>interrupt\<close> makes the coordinator
  call \<^verbatim>\<open>stop\<close>; the stream then yields another chunk, and that chunk is forwarded as an
  \<^verbatim>\<open>llm_token\<close> after the \<^verbatim>\<open>interrupted\<close> message.
\<close>

theorem token_forwarded_after_stop:
  "sent (effects_of (run active_server
      [stt_Transcript (Some (js_str ''hello'')) (Some True), llm_created 0,
       llm_chunk 0 (js_str ''Hi''), ws_message interrupt, llm_chunk 0 (js_str '' there'')])) =
     [stt_transcript (js_str ''hello'') True, llm_token (js_str ''Hi''), interrupted,
      llm_token (js_str '' there'')]"
  by code_simp

text \<open>
  In general: after an \<^verbatim>\<open>interrupt\<close>, a chunk that is not empty is forwarded exactly as
  it would have been without the interrupt.
\<close>

lemma chunk_forwarded_after_interrupt:
  "groqLLM (the_session w) \<noteq> None \<Longrightarrow> c \<noteq> [] \<Longrightarrow>
   sent (snd (on_chunk (fst (handleInterrupt w)) c)) =
     (if ws_open (the_session w) then [llm_token c] else [])"
  by (cases "groqLLM (the_session w)")
    (auto simp: on_chunk_def handleInterrupt_def streamCompletion_chunk_def onToken_def
      sendMessage_def Let_def)

section \<open>What triggers a generation\<close>

lemma ip_Nil [simp]: "\<not> invokes_pipeline []"
  by (simp add: invokes_pipeline_def)

lemma ip_append [simp]:
  "invokes_pipeline (xs @ ys) \<longleftrightarrow> invokes_pipeline xs \<or> invokes_pipeline ys"
  by (simp add: invokes_pipeline_def)

lemma ip_Cons: "invokes_pipeline (x # xs) \<longleftrightarrow> is_generation x \<or> invokes_pipeline xs"
  by (simp add: invokes_pipeline_def)

lemma ip_sendMessage [simp]: "\<not> invokes_pipeline (sendMessage s m)"
  by (simp add: sendMessage_def ip_Cons)

lemma ip_sendError [simp]: "\<not> invokes_pipeline (sendError s m)"
  by (simp add: sendError_def)

lemma ip_map_send [simp]: "\<not> invokes_pipeline (map connection_send q)"
  by (induction q) (simp_all add: ip_Cons)

lemma ip_cleanupSession [simp]: "\<not> invokes_pipeline (snd (cleanupSession w))"
  by (auto simp: cleanupSession_def WebRTCServer_cleanup_def DeepgramSTT_stop_def Let_def ip_Cons
      split: option.splits)

lemma ip_startConversation [simp]: "\<not> invokes_pipeline (snd (startConversation w))"
  by (auto simp: startConversation_def startConversation_catch_def DeepgramSTT_start_def
      Let_def split_beta ip_Cons split: sum.splits)

lemma ip_stopConversation [simp]: "\<not> invokes_pipeline (snd (stopConversation w))"
  by (simp add: stopConversation_def split_beta)

lemma ip_sendAudio [simp]: "\<not> invokes_pipeline (snd (DeepgramSTT_sendAudio d a))"
  by (simp add: DeepgramSTT_sendAudio_def Let_def ip_Cons)

lemma ip_handleWebRTCOffer [simp]: "\<not> invokes_pipeline (snd (handleWebRTCOffer w offer))"
  by (simp add: handleWebRTCOffer_def Let_def split_beta ip_Cons split: sum.splits)

lemma ip_handleWebRTCIceCandidate [simp]:
  "\<not> invokes_pipeline (snd (handleWebRTCIceCandidate w c))"
  by (simp add: handleWebRTCIceCandidate_def WebRTCServer_handleIceCandidate_def ip_Cons
      split: option.splits)

lemma ip_handleInterrupt [simp]: "\<not> invokes_pipeline (snd (handleInterrupt w))"
  by (simp add: handleInterrupt_def Let_def split_beta ip_Cons split: option.splits)

lemma ip_handleMessage [simp]: "\<not> invokes_pipeline (snd (handleMessage w m))"
  by (cases m) (simp_all add: Let_def split_beta ip_Cons split: option.splits)

lemma ip_on_Open [simp]: "\<not> invokes_pipeline (snd (on_Open w))"
  by (simp add: on_Open_def DeepgramSTT_Open_def Let_def split: option.splits)

lemma ip_on_Close [simp]: "\<not> invokes_pipeline (snd (on_Close w))"
  by (simp add: on_Close_def Let_def split: option.splits)

lemma ip_llm [simp]:
  "\<not> invokes_pipeline (snd (on_created w k))"
  "\<not> invokes_pipeline (snd (on_chunk w c))"
  "\<not> invokes_pipeline (snd (on_stream_end w k))"
  "\<not> invokes_pipeline (snd (on_failed w k e))"
  by (simp_all add: on_created_def on_chunk_def on_stream_end_def on_failed_def onToken_def
      onComplete_def processLLM_catch_def Let_def split_beta split: option.splits)

lemma ip_rtc [simp]:
  "\<not> invokes_pipeline (snd (on_connectionStateChange w st))"
  "\<not> invokes_pipeline (snd (on_iceConnectionFailed w))"
  "\<not> invokes_pipeline (snd (on_iceCandidate w c))"
  "\<not> invokes_pipeline (snd (on_audioData w a))"
  "\<not> invokes_pipeline (snd (on_dataChannelOpen w))"
  "\<not> invokes_pipeline (snd (on_dataChannelClose w))"
  by (simp_all add: on_connectionStateChange_def on_iceConnectionFailed_def on_iceCandidate_def
      on_audioData_def on_dataChannelOpen_def on_dataChannelClose_def Let_def split_beta ip_Cons
      split: option.splits)

lemma ip_ws [simp]:
  "\<not> invokes_pipeline (snd (on_message_invalid w))"
  "\<not> invokes_pipeline (snd (on_ws_close w))"
  by (simp_all add: on_message_invalid_def on_ws_close_def)

lemma ip_onTranscript:
  "invokes_pipeline (snd (onTranscript w t f)) \<longleftrightarrow>
     f \<and> js_trim t \<noteq> [] \<and> groqLLM (the_session w) \<noteq> None \<and> isActive (the_session w)"
  by (cases "groqLLM (the_session w)")
    (auto simp: onTranscript_def processLLM_def streamCompletion_call_def Let_def split_beta
      ip_Cons)

lemma only_final_transcripts:
  assumes "invokes_pipeline (effects_of (step w e))"
  shows "\<exists>t. e = stt_Transcript (Some t) (Some True) \<and> js_trim t \<noteq> []"
proof (cases e)
  case (stt_Transcript alt fin)
  with assms obtain d where d: "deepgramSTT (the_session w) = Some d"
    by (cases "deepgramSTT (the_session w)") auto
  from assms stt_Transcript d obtain u f where
    tr: "DeepgramSTT_Transcript alt fin = Some (u, f)" and
    fx: "invokes_pipeline (snd (onTranscript w u f))"
    by (cases "DeepgramSTT_Transcript alt fin") auto
  then have "f" and "js_trim u \<noteq> []"
    by (simp_all add: ip_onTranscript)
  with tr have "fin = Some True" and "alt = Some u"
    by (auto simp: DeepgramSTT_Transcript_def Let_def split: option.splits if_splits)
  with stt_Transcript \<open>js_trim u \<noteq> []\<close> show ?thesis
    by simp
qed (use assms in \<open>simp_all split: if_splits option.splits\<close>)

lemma nonblank_final_transcript:
  assumes "deepgramSTT (the_session w) \<noteq> None" and "groqLLM (the_session w) \<noteq> None"
    and "isActive (the_session w)" and "js_trim t \<noteq> []"
  shows "invokes_pipeline (effects_of (step w (stt_Transcript (Some t) (Some True))))"
proof -
  from assms(4) have "t \<noteq> []"
    by (auto simp: js_trim_def)
  with assms have "step w (stt_Transcript (Some t) (Some True)) = Some (onTranscript w t True)"
    by (auto simp: DeepgramSTT_Transcript_def)
  with assms show ?thesis
    by (simp add: ip_onTranscript)
qed

text \<open>
  C5. Whatever the event, a generation request (a call of \<^verbatim>\<open>streamCompletion\<close>, or a
  request to the completion service) is among its effects only if the event is a
  transcript with \<^verbatim>\<open>is_final\<close> true whose text is not empty after trimming. A final
  transcript that is blank after trimming does not even reach the coordinator's callback;
  the callback and \<^verbatim>\<open>processLLM\<close> each drop it on their own. A final transcript that is
  not blank does trigger a request when the session is active and has its bridge and
  pipeline.
\<close>

theorem only_nonblank_final_transcripts_trigger_generation:
  "(invokes_pipeline (effects_of (step w e)) \<longrightarrow>
      (\<exists>u. e = stt_Transcript (Some u) (Some True) \<and> js_trim u \<noteq> []))
   \<and> (js_trim t = [] \<longrightarrow>
        DeepgramSTT_Transcript (Some t) fin = None
        \<and> onTranscript w t True = (w, sendMessage (the_session w) (stt_transcript t True))
        \<and> processLLM w t = (w, []))
   \<and> (deepgramSTT (the_session w) \<noteq> None \<and> groqLLM (the_session w) \<noteq> None
        \<and> isActive (the_session w) \<and> js_trim t \<noteq> [] \<longrightarrow>
      invokes_pipeline (effects_of (step w (stt_Transcript (Some t) (Some True)))))"
proof (intro conjI impI)
  assume "invokes_pipeline (effects_of (step w e))"
  then show "\<exists>u. e = stt_Transcript (Some u) (Some True) \<and> js_trim u \<noteq> []"
    by (rule only_final_transcripts)
next
  assume blank: "js_trim t = []"
  then show "DeepgramSTT_Transcript (Some t) fin = None"
    by (simp add: DeepgramSTT_Transcript_def)
  from blank show
    "onTranscript w t True = (w, sendMessage (the_session w) (stt_transcript t True))"
    by (simp add: onTranscript_def)
  from blank show "processLLM w t = (w, [])"
    by (simp add: processLLM_def Let_def split: option.splits)
next
  assume "deepgramSTT (the_session w) \<noteq> None \<and> groqLLM (the_session w) \<noteq> None
        \<and> isActive (the_session w) \<and> js_trim t \<noteq> []"
  then show "invokes_pipeline (effects_of (step w (stt_Transcript (Some t) (Some True))))"
    by (blast intro: nonblank_final_transcript)
qed

text \<open>
  At the example session: a final transcript of three spaces triggers nothing, a final
  transcript \<open>hello there\<close> triggers a request.
\<close>

theorem only_nonblank_final_transcripts_trigger_generation_witness:
  "js_trim (js_str ''   '') = []
   \<and> \<not> invokes_pipeline (effects_of (step active_server
          (stt_Transcript (Some (js_str ''   '')) (Some True))))
   \<and> processLLM active_server (js_str ''   '') = (active_server, [])
   \<and> invokes_pipeline (effects_of (step active_server
        (stt_Transcript (Some (js_str ''hello there'')) (Some True))))"
proof -
  have blank: "js_trim (js_str ''   '') = []"
    by code_simp
  have h: "deepgramSTT (the_session active_server) \<noteq> None
      \<and> groqLLM (the_session active_server) \<noteq> None
      \<and> isActive (the_session active_server) \<and> js_trim (js_str ''hello there'') \<noteq> []"
    by code_simp
  note c5 = only_nonblank_final_transcripts_trigger_generation
  from c5 [of active_server "stt_Transcript (Some (js_str ''   '')) (Some True)"] blank
  have "\<not> invokes_pipeline (effects_of (step active_server
          (stt_Transcript (Some (js_str ''   '')) (Some True))))"
    by auto
  moreover from c5 [where t = "js_str ''   ''" and w = active_server] blank
  have "processLLM active_server (js_str ''   '') = (active_server, [])"
    by blast
  moreover from c5 [where t = "js_str ''hello there''" and w = active_server] h
  have "invokes_pipeline (effects_of (step active_server
        (stt_Transcript (Some (js_str ''hello there'')) (Some True))))"
    by blast
  ultimately show ?thesis
    using blank by blast
qed

section \<open>Fallback audio\<close>

lemma handleWebRTCOffer_session:
  "the_session (fst (handleWebRTCOffer w offer)) = (the_session w)\<lparr>useWebRTC := Some True\<rparr>"
  by (simp add: handleWebRTCOffer_def split_beta Let_def split: sum.splits)

text \<open>
  C6, evaluated on the code. In a first conversation an offer is handled, the data
  channel opens and closes, and the next \<^verbatim>\<open>audio_chunk\<close> on the control channel is passed
  to the bridge's \<^verbatim>\<open>sendAudio\<close>. After \<^verbatim>\<open>stop_conversation\<close> and a second
  \<^verbatim>\<open>start_conversation\<close> on the same socket the session is active again but no longer in
  the registry: \<^verbatim>\<open>cleanupSession\<close> deleted the entry and \<^verbatim>\<open>startConversation\<close> does not
  restore it. The same events then leave the flag set by the offer, because the
  negotiator's handlers do not find the session, and the \<^verbatim>\<open>audio_chunk\<close> is not passed
  on: the calls end with \<^verbatim>\<open>handleOffer\<close>.
\<close>

theorem restarted_session_keeps_ignoring_fallback_audio:
  "calls (effects_of (run fresh_server
      [ws_message start_conversation, stt_Open,
       ws_message (webrtc_offer (Some example_offer)), rtc_dataChannelOpen,
       rtc_dataChannelClose, ws_message (audio_chunk [1, 2])])) =
     [STT_start, RTC_handleOffer, STT_sendAudio [1, 2]]
   \<and> calls (effects_of (run fresh_server
      [ws_message start_conversation, stt_Open, ws_message stop_conversation,
       ws_message start_conversation, stt_Open,
       ws_message (webrtc_offer (Some example_offer)), rtc_dataChannelOpen,
       rtc_dataChannelClose, ws_message (audio_chunk [1, 2])])) =
     [STT_start, RTC_cleanup, STT_stop, LLM_stop, STT_start, RTC_handleOffer]"
  by code_simp

text \<open>
  Where the priority does follow the transport. Take an active session that has its
  bridge and is in the registry. An \<^verbatim>\<open>audio_chunk\<close> on the control channel is passed to
  the bridge's \<^verbatim>\<open>sendAudio\<close> exactly when the transport flag is not \<open>true\<close>; when it is,
  the chunk changes nothing and has no effect. After the data channel opened, the
  connection state became \<open>connected\<close>, or an offer was handled, the next chunk is
  ignored; after the data channel closed, ICE failed, or the connection state became
  \<open>failed\<close>, \<open>closed\<close> or \<open>disconnected\<close>, the next chunk is passed on again.
\<close>

lemma fallback_audio_follows_transport_flag:
  assumes "isActive (the_session w)" and "deepgramSTT (the_session w) = Some d"
    and "sessions_has w"
  shows
    "handleMessage w (audio_chunk a) =
       (if useWebRTC (the_session w) = Some True then (w, [])
        else (w\<lparr>the_session := (the_session w)
                  \<lparr>deepgramSTT := Some (fst (DeepgramSTT_sendAudio d a))\<rparr>\<rparr>,
              Calls (STT_sendAudio a) # snd (DeepgramSTT_sendAudio d a)))
     \<and> (\<forall>w1 \<in> {fst (on_dataChannelOpen w), fst (on_connectionStateChange w connected),
                  fst (handleWebRTCOffer w offer)}.
          handleMessage w1 (audio_chunk a) = (w1, []))
     \<and> (\<forall>w1 \<in> {fst (on_dataChannelClose w), fst (on_iceConnectionFailed w),
                  fst (on_connectionStateChange w failed),
                  fst (on_connectionStateChange w closed),
                  fst (on_connectionStateChange w disconnected)}.
          handleMessage w1 (audio_chunk a) =
            (w1\<lparr>the_session := (the_session w1)
                   \<lparr>deepgramSTT := Some (fst (DeepgramSTT_sendAudio d a))\<rparr>\<rparr>,
             Calls (STT_sendAudio a) # snd (DeepgramSTT_sendAudio d a)))"
proof -
  have offer: "the_session (fst (handleWebRTCOffer w offer)) =
      (the_session w)\<lparr>useWebRTC := Some True\<rparr>"
    by (simp add: handleWebRTCOffer_session)
  show ?thesis
    using assms offer
    by (auto simp: on_dataChannelOpen_def on_dataChannelClose_def on_connectionStateChange_def
        on_iceConnectionFailed_def Let_def split_beta)
qed

text \<open>
  Without the registry entry the negotiator's handlers change nothing, so a flag that
  is set stays set whatever the transport reports.
\<close>

lemma unregistered_session_keeps_flag:
  "\<not> sessions_has w \<Longrightarrow>
     on_dataChannelClose w = (w, []) \<and> on_iceConnectionFailed w = (w, [])
     \<and> on_connectionStateChange w st = (w, [])"
  by (simp add: on_dataChannelClose_def on_iceConnectionFailed_def on_connectionStateChange_def)

section \<open>Offers\<close>

lemma js_str_append: "js_str (xs @ ys) = js_str xs @ js_str ys"
  by (simp add: js_str_def)

lemma handleOffer_empty_sdp:
  "offer_sdp off = Some [] \<Longrightarrow>
   WebRTCServer_handleOffer pc has (Some off) =
     (True, Inl \<lparr>message = Some (js_str ''invalid sessionDescription''),
                 toString = js_str ''Error: invalid sessionDescription''\<rparr>)"
  by (simp add: WebRTCServer_handleOffer_def RTCPeerConnection_setRemoteDescription_def)

text \<open>
  C7. For an offer whose SDP is the empty string, \<^verbatim>\<open>handleOffer\<close> raises the error of
  the peer connection's \<^verbatim>\<open>setRemoteDescription\<close>, whatever the state and whatever the peer
  connection would answer to other descriptions. \<^verbatim>\<open>handleWebRTCOffer\<close> then sends one
  \<^verbatim>\<open>error\<close> control message (while the control channel is open, as it is when the offer
  arrives on it) and nothing else: no \<^verbatim>\<open>webrtc_answer\<close> is among its effects.
\<close>

theorem empty_sdp_offer_is_an_error:
  assumes "offer_sdp off = Some []"
  shows "isl (snd (WebRTCServer_handleOffer (peer w) (rtc_has w) (Some off)))
     \<and> sent (snd (handleWebRTCOffer w (Some off))) =
         (if ws_open (the_session w)
          then [error (js_str ''WebRTC setup error: invalid sessionDescription'')] else [])
     \<and> (ws_open (the_session w) \<longrightarrow>
          step w (ws_message (webrtc_offer (Some off))) = Some (handleWebRTCOffer w (Some off)))
     \<and> (\<forall>a. ws_send (webrtc_answer a) \<notin> set (snd (handleWebRTCOffer w (Some off))))"
proof -
  have s: "js_str ''WebRTC setup error: '' @ js_str ''invalid sessionDescription'' =
      js_str ''WebRTC setup error: invalid sessionDescription''"
    by (simp add: js_str_def)
  show ?thesis
    using handleOffer_empty_sdp [OF assms, of "peer w" "rtc_has w"] s
    by (simp add: handleWebRTCOffer_def sendError_def sendMessage_def Let_def)
qed

text \<open>At the session of a peer that just connected, with the empty-SDP offer.\<close>

theorem empty_sdp_offer_is_an_error_witness:
  "offer_sdp empty_sdp_offer = Some []
   \<and> sent (effects_of (step fresh_server (ws_message (webrtc_offer (Some empty_sdp_offer))))) =
       [error (js_str ''WebRTC setup error: invalid sessionDescription'')]"
proof -
  have h: "offer_sdp empty_sdp_offer = Some []"
    by code_simp
  have o: "ws_open (the_session fresh_server)"
    by code_simp
  from empty_sdp_offer_is_an_error [OF h, of fresh_server] h o show ?thesis
    by simp
qed

text \<open>
  For every offer: the peer is sent an \<^verbatim>\<open>error\<close> when \<^verbatim>\<open>handleOffer\<close> raises and the
  answer when it returns, and it raises exactly when the offer is missing or one of the
  three calls on the peer connection raises.
\<close>

lemma offer_answered_unless_negotiation_raises:
  "(case snd (WebRTCServer_handleOffer (peer w) (rtc_has w) offer) of
      Inl e \<Rightarrow>
        sent (snd (handleWebRTCOffer w offer)) =
          (if ws_open (the_session w)
           then [error (js_str ''WebRTC setup error: '' @
                   (case message e of None \<Rightarrow> js_str ''undefined'' | Some t \<Rightarrow> t))]
           else [])
    | Inr a \<Rightarrow>
        sent (snd (handleWebRTCOffer w offer)) =
          (if ws_open (the_session w) then [webrtc_answer a] else []))"
  by (auto simp: handleWebRTCOffer_def sendError_def sendMessage_def Let_def split_beta
      split: sum.splits)

section \<open>Teardown\<close>

lemma cleanupSession_effects:
  "sessions_has w \<Longrightarrow>
   snd (cleanupSession w) =
     Calls RTC_cleanup # (if rtc_has w then [peer_close] else []) @
     (case deepgramSTT (the_session w) of
        None \<Rightarrow> []
      | Some d \<Rightarrow> Calls STT_stop # (if connection d then [connection_finish] else [])) @
     (if groqLLM (the_session w) = None then [] else [Calls LLM_stop])"
  by (auto simp: cleanupSession_def WebRTCServer_cleanup_def DeepgramSTT_stop_def Let_def
      split: option.splits)

lemma cleanupSession_state:
  "sessions_has w \<Longrightarrow>
   fst (cleanupSession w) =
     w\<lparr>the_session := (the_session w)
          \<lparr>isActive := False,
           deepgramSTT := map_option (\<lambda>d. d\<lparr>connection := False\<rparr>) (deepgramSTT (the_session w)),
           groqLLM := map_option GroqLLM_stop (groqLLM (the_session w))\<rparr>,
        sessions_has := False, rtc_has := False\<rparr>"
  by (auto simp: cleanupSession_def WebRTCServer_cleanup_def DeepgramSTT_stop_def Let_def
      split: option.splits)

text \<open>
  C8, as the code has it. For a session that is in the registry, \<^verbatim>\<open>cleanupSession\<close>
  releases in this order: the transport negotiator (closing the peer connection when
  there is one), then the recognition bridge (finishing the engine connection when there
  is one), then the response pipeline. Afterwards the session is inactive and in neither
  registry, the bridge holds no connection and the pipeline is stopped. Whether the
  engine's \<^verbatim>\<open>finish\<close> raises makes no difference to the effects or to the session. A
  \<^verbatim>\<open>stop_conversation\<close> for an active session does the same and then sends
  \<^verbatim>\<open>conversation_stopped\<close>; the control channel closing does the same; a failed start
  reports its error and then does the same.
\<close>

theorem teardown_releases_transport_bridge_pipeline:
  assumes "sessions_has w"
  shows "snd (cleanupSession w) =
       Calls RTC_cleanup # (if rtc_has w then [peer_close] else []) @
       (case deepgramSTT (the_session w) of
          None \<Rightarrow> []
        | Some d \<Rightarrow> Calls STT_stop # (if connection d then [connection_finish] else [])) @
       (if groqLLM (the_session w) = None then [] else [Calls LLM_stop])
     \<and> fst (cleanupSession w) =
       w\<lparr>the_session := (the_session w)
            \<lparr>isActive := False,
             deepgramSTT := map_option (\<lambda>d. d\<lparr>connection := False\<rparr>) (deepgramSTT (the_session w)),
             groqLLM := map_option GroqLLM_stop (groqLLM (the_session w))\<rparr>,
          sessions_has := False, rtc_has := False\<rparr>
     \<and> snd (cleanupSession (w\<lparr>finish_throws := True\<rparr>)) =
       snd (cleanupSession (w\<lparr>finish_throws := False\<rparr>))
     \<and> the_session (fst (cleanupSession (w\<lparr>finish_throws := True\<rparr>))) =
       the_session (fst (cleanupSession (w\<lparr>finish_throws := False\<rparr>)))
     \<and> (isActive (the_session w) \<longrightarrow>
          snd (stopConversation w) = snd (cleanupSession w) @
            (if ws_open (the_session w) then [ws_send conversation_stopped] else []))
     \<and> snd (on_ws_close w) = snd (cleanupSession w)
     \<and> snd (startConversation_catch w) =
       sendError (the_session w) (js_str ''Failed to start conversation'') @
       snd (cleanupSession w)"
proof (intro conjI impI)
  show "snd (cleanupSession w) =
       Calls RTC_cleanup # (if rtc_has w then [peer_close] else []) @
       (case deepgramSTT (the_session w) of
          None \<Rightarrow> []
        | Some d \<Rightarrow> Calls STT_stop # (if connection d then [connection_finish] else [])) @
       (if groqLLM (the_session w) = None then [] else [Calls LLM_stop])"
    using assms by (rule cleanupSession_effects)
  show "fst (cleanupSession w) =
       w\<lparr>the_session := (the_session w)
            \<lparr>isActive := False,
             deepgramSTT := map_option (\<lambda>d. d\<lparr>connection := False\<rparr>) (deepgramSTT (the_session w)),
             groqLLM := map_option GroqLLM_stop (groqLLM (the_session w))\<rparr>,
          sessions_has := False, rtc_has := False\<rparr>"
    using assms by (rule cleanupSession_state)
  show "snd (cleanupSession (w\<lparr>finish_throws := True\<rparr>)) =
       snd (cleanupSession (w\<lparr>finish_throws := False\<rparr>))"
    using assms by (simp add: cleanupSession_effects)
  show "the_session (fst (cleanupSession (w\<lparr>finish_throws := True\<rparr>))) =
       the_session (fst (cleanupSession (w\<lparr>finish_throws := False\<rparr>)))"
    using assms by (simp add: cleanupSession_state)
  show "snd (on_ws_close w) = snd (cleanupSession w)"
    using assms by (simp add: on_ws_close_def cleanupSession_effects)
  show "snd (startConversation_catch w) =
       sendError (the_session w) (js_str ''Failed to start conversation'') @
       snd (cleanupSession w)"
    by (simp add: startConversation_catch_def split_beta)
next
  assume "isActive (the_session w)"
  then show "snd (stopConversation w) = snd (cleanupSession w) @
            (if ws_open (the_session w) then [ws_send conversation_stopped] else [])"
    using assms
    by (simp add: stopConversation_def split_beta sendMessage_def cleanupSession_state)
qed

text \<open>At the example session, which has a bridge and a pipeline but no peer connection.\<close>

theorem teardown_releases_transport_bridge_pipeline_witness:
  "sessions_has active_server
   \<and> snd (cleanupSession active_server) =
       [Calls RTC_cleanup, Calls STT_stop, connection_finish, Calls LLM_stop]"
proof -
  have h: "sessions_has active_server"
    by code_simp
  have r: "\<not> rtc_has active_server"
    by code_simp
  have d: "deepgramSTT (the_session active_server) =
      Some \<lparr>connection = True, isConnectionReady = True, audioQueue = [], audioChunkCount = 0\<rparr>"
    by code_simp
  have g: "groqLLM (the_session active_server) \<noteq> None"
    by code_simp
  from teardown_releases_transport_bridge_pipeline [OF h] h r d g show ?thesis
    by simp
qed

text \<open>
  Against C8 as stated: after an offer was handled, \<^verbatim>\<open>stop_conversation\<close> releases the
  transport negotiator first, not last.
\<close>

theorem teardown_order_counterexample:
  "calls (effects_of (run active_server
      [ws_message (webrtc_offer (Some empty_sdp_offer)), ws_message stop_conversation])) =
     [RTC_handleOffer, RTC_cleanup, STT_stop, LLM_stop]"
  by code_simp

section \<open>Reconnect backoff\<close>

lemma client_run_closes:
  "maxReconnectAttempts c = 5 \<Longrightarrow>
   snd (client_run c (replicate k onclose)) =
     map (\<lambda>n. if n \<le> 5 then Some (reconnectDelay c * n) else None)
       [reconnectAttempts c + 1 ..< reconnectAttempts c + 1 + k]"
proof (induction k arbitrary: c)
  case 0
  then show ?case by simp
next
  case (Suc k)
  obtain c1 t where st: "attemptReconnect c = (c1, t)"
    by (cases "attemptReconnect c")
  show ?case
  proof (cases "reconnectAttempts c < 5")
    case True
    with st Suc.prems have c1: "c1 = c\<lparr>reconnectAttempts := reconnectAttempts c + 1\<rparr>"
      and t: "t = Some (reconnectDelay c * (reconnectAttempts c + 1))"
      by (auto simp: attemptReconnect_def Let_def)
    have ih: "snd (client_run c1 (replicate k onclose)) =
        map (\<lambda>n. if n \<le> 5 then Some (reconnectDelay c * n) else None)
          [reconnectAttempts c + 2 ..< reconnectAttempts c + 2 + k]"
      using Suc.IH [of c1] Suc.prems by (simp add: c1)
    have "[reconnectAttempts c + 1 ..< reconnectAttempts c + 1 + Suc k] =
        (reconnectAttempts c + 1) # [reconnectAttempts c + 2 ..< reconnectAttempts c + 2 + k]"
      by (simp add: upt_conv_Cons)
    with ih st t True show ?thesis
      by (simp add: split_beta)
  next
    case False
    with st Suc.prems have c1: "c1 = c" and t: "t = None"
      by (auto simp: attemptReconnect_def)
    have ih: "snd (client_run c (replicate k onclose)) =
        map (\<lambda>n. if n \<le> 5 then Some (reconnectDelay c * n) else None)
          [reconnectAttempts c + 1 ..< reconnectAttempts c + 1 + k]"
      using Suc.IH [of c] Suc.prems by simp
    have all_none: "map (\<lambda>n. if n \<le> 5 then Some (reconnectDelay c * n) else None)
          [reconnectAttempts c + 1 ..< reconnectAttempts c + 1 + j] = replicate j None" for j
      using False by (induction j) (auto simp: replicate_append_same)
    from ih st t c1 show ?thesis
      by (simp only: all_none replicate_Suc client_run.simps socket_event.simps)
        (simp add: split_beta)
  qed
qed

text \<open>
  C9. Starting from a client whose last connection opened (counter 0, maximum 5), the
  \<open>n\<close>-th consecutive close sets a reconnect timer of \<open>reconnectDelay \<times> n\<close> for
  \<open>n = 1..5\<close> and sets no timer from the sixth close on. After a connection opens
  again, the next close sets a timer of \<open>reconnectDelay \<times> 1\<close>.
\<close>

theorem reconnect_backoff:
  "snd (client_run (new_VoiceAgentClient\<lparr>reconnectDelay := base\<rparr>) (replicate k onclose)) =
     map (\<lambda>n. if n \<le> 5 then Some (base * n) else None) [1 ..< Suc k]
   \<and> snd (client_run (new_VoiceAgentClient\<lparr>reconnectDelay := base\<rparr>)
            (replicate k onclose @ [onopen, onclose])) =
     map (\<lambda>n. if n \<le> 5 then Some (base * n) else None) [1 ..< Suc k] @ [None, Some base]"
proof -
  let ?c = "new_VoiceAgentClient\<lparr>reconnectDelay := base\<rparr>"
  let ?f = "\<lambda>n. if n \<le> 5 then Some (base * n) else None"
  have m: "maxReconnectAttempts ?c = 5" and a: "reconnectAttempts ?c = 0"
    and d: "reconnectDelay ?c = base"
    by (simp_all add: new_VoiceAgentClient_def)
  have closes: "snd (client_run ?c (replicate k onclose)) = map ?f [1 ..< Suc k]"
    using client_run_closes [OF m, of k] by (simp add: a d)
  have app: "snd (client_run c (es @ es')) =
      snd (client_run c es) @ snd (client_run (fst (client_run c es)) es')" for c es es'
    by (induction es arbitrary: c) (auto simp: split_beta)
  have keep: "maxReconnectAttempts (fst (client_run c es)) = maxReconnectAttempts c
      \<and> reconnectDelay (fst (client_run c es)) = reconnectDelay c" for c es
  proof (induction es arbitrary: c)
    case Nil
    then show ?case by simp
  next
    case (Cons e es)
    then show ?case
      by (cases e) (auto simp: split_beta attemptReconnect_def Let_def)
  qed
  have "snd (client_run (fst (client_run ?c (replicate k onclose))) [onopen, onclose]) =
      [None, Some base]"
    using keep [of ?c "replicate k onclose"]
    by (simp add: split_beta attemptReconnect_def Let_def m d)
  with closes app [of ?c "replicate k onclose" "[onopen, onclose]"] show ?thesis
    by simp
qed

text \<open>With a base delay of 1000 ms, seven consecutive closes.\<close>

theorem reconnect_backoff_witness:
  "snd (client_run new_VoiceAgentClient (replicate 7 onclose)) =
     [Some 1000, Some 2000, Some 3000, Some 4000, Some 5000, None, None]"
proof -
  have c: "new_VoiceAgentClient\<lparr>reconnectDelay := 1000\<rparr> = new_VoiceAgentClient"
    by (simp add: new_VoiceAgentClient_def)
  have l: "[1 ..< Suc 7] = [1, 2, 3, 4, 5, 6, 7]"
    by code_simp
  from reconnect_backoff [of 1000 7] show ?thesis
    unfolding c l by simp
qed

section \<open>Start while active\<close>

text \<open>
  C10. For a session whose active flag is set, \<^verbatim>\<open>start_conversation\<close> leaves the whole
  state as it was (history, bridge and pipeline included) and has no effect at all: no
  message is sent and no component is called.
\<close>

theorem start_conversation_when_active_is_noop:
  "isActive (the_session w) \<Longrightarrow>
     handleMessage w start_conversation = (w, [])
     \<and> (ws_open (the_session w) \<longrightarrow> step w (ws_message start_conversation) = Some (w, []))"
  by (simp add: startConversation_def)

text \<open>At the example session, which is active.\<close>

theorem start_conversation_when_active_is_noop_witness:
  "isActive (the_session active_server)
   \<and> handleMessage active_server start_conversation = (active_server, [])
   \<and> step active_server (ws_message start_conversation) = Some (active_server, [])"
proof -
  have h: "isActive (the_session active_server)"
    by code_simp
  have o: "ws_open (the_session active_server)"
    by code_simp
  from start_conversation_when_active_is_noop [OF h] h o show ?thesis
    by simp
qed

end
